theory Spec2Isabelle
  imports Complex_Main
begin

section \<open>JavaScript numbers\<close>

text \<open>
  The two numeric engines (\<^verbatim>\<open>src/utils/forecast.ts\<close> and
  \<^verbatim>\<open>src/utils/priceOptimization.ts\<close>) compute on JavaScript numbers. A number is
  modelled as an exact real, or one of the three special values \<^verbatim>\<open>NaN\<close>,
  \<^verbatim>\<open>Infinity\<close> and \<^verbatim>\<open>-Infinity\<close>, so that a division by zero is a value of the
  model and not the HOL default \<open>x / 0 = 0\<close>. The rounding error of IEEE doubles and
  the sign of zero are not modelled: finite arithmetic is exact, and a quotient with
  divisor zero takes the sign of its dividend.
\<close>

datatype jsnum = Num real | NaN | PInf | NInf

fun js_add :: "jsnum \<Rightarrow> jsnum \<Rightarrow> jsnum" where
  "js_add (Num a) (Num b) = Num (a + b)"
| "js_add NaN _ = NaN"
| "js_add _ NaN = NaN"
| "js_add PInf NInf = NaN"
| "js_add NInf PInf = NaN"
| "js_add PInf _ = PInf"
| "js_add _ PInf = PInf"
| "js_add NInf _ = NInf"
| "js_add _ NInf = NInf"

fun js_neg :: "jsnum \<Rightarrow> jsnum" where
  "js_neg (Num a) = Num (- a)"
| "js_neg NaN = NaN"
| "js_neg PInf = NInf"
| "js_neg NInf = PInf"

definition js_sub :: "jsnum \<Rightarrow> jsnum \<Rightarrow> jsnum" where
  "js_sub a b = js_add a (js_neg b)"

fun js_mul :: "jsnum \<Rightarrow> jsnum \<Rightarrow> jsnum" where
  "js_mul (Num a) (Num b) = Num (a * b)"
| "js_mul NaN _ = NaN"
| "js_mul _ NaN = NaN"
| "js_mul (Num a) PInf = (if a = 0 then NaN else if 0 < a then PInf else NInf)"
| "js_mul (Num a) NInf = (if a = 0 then NaN else if 0 < a then NInf else PInf)"
| "js_mul PInf (Num b) = (if b = 0 then NaN else if 0 < b then PInf else NInf)"
| "js_mul NInf (Num b) = (if b = 0 then NaN else if 0 < b then NInf else PInf)"
| "js_mul PInf PInf = PInf"
| "js_mul NInf NInf = PInf"
| "js_mul PInf NInf = NInf"
| "js_mul NInf PInf = NInf"

fun js_div :: "jsnum \<Rightarrow> jsnum \<Rightarrow> jsnum" where
  "js_div (Num a) (Num b) =
     (if b = 0 then (if a = 0 then NaN else if 0 < a then PInf else NInf)
      else Num (a / b))"
| "js_div NaN _ = NaN"
| "js_div _ NaN = NaN"
| "js_div (Num a) PInf = Num 0"
| "js_div (Num a) NInf = Num 0"
| "js_div PInf (Num b) = (if 0 \<le> b then PInf else NInf)"
| "js_div NInf (Num b) = (if 0 \<le> b then NInf else PInf)"
| "js_div PInf PInf = NaN"
| "js_div PInf NInf = NaN"
| "js_div NInf PInf = NaN"
| "js_div NInf NInf = NaN"

text \<open>Comparisons: every comparison with \<^verbatim>\<open>NaN\<close> is false, also \<^verbatim>\<open>NaN === NaN\<close>.\<close>

fun js_lt :: "jsnum \<Rightarrow> jsnum \<Rightarrow> bool" where
  "js_lt (Num a) (Num b) = (a < b)"
| "js_lt NaN _ = False"
| "js_lt _ NaN = False"
| "js_lt _ NInf = False"
| "js_lt PInf _ = False"
| "js_lt NInf _ = True"
| "js_lt _ PInf = True"

fun js_eq :: "jsnum \<Rightarrow> jsnum \<Rightarrow> bool" where
  "js_eq NaN _ = False"
| "js_eq _ NaN = False"
| "js_eq a b = (a = b)"

definition js_gt :: "jsnum \<Rightarrow> jsnum \<Rightarrow> bool" where
  "js_gt a b = js_lt b a"

definition js_le :: "jsnum \<Rightarrow> jsnum \<Rightarrow> bool" where
  "js_le a b = (js_lt a b \<or> js_eq a b)"

definition js_ge :: "jsnum \<Rightarrow> jsnum \<Rightarrow> bool" where
  "js_ge a b = js_le b a"

text \<open>\<^verbatim>\<open>Math.max\<close>, \<^verbatim>\<open>Math.min\<close> (\<^verbatim>\<open>NaN\<close> if either argument is), \<^verbatim>\<open>Math.abs\<close>,
  \<^verbatim>\<open>Math.round\<close> (the integer nearest to the argument, a tie going up),
  \<^verbatim>\<open>Math.pow(x, 2)\<close> and \<^verbatim>\<open>Math.sqrt\<close>.\<close>

fun js_max :: "jsnum \<Rightarrow> jsnum \<Rightarrow> jsnum" where
  "js_max NaN _ = NaN"
| "js_max _ NaN = NaN"
| "js_max a b = (if js_lt a b then b else a)"

fun js_min :: "jsnum \<Rightarrow> jsnum \<Rightarrow> jsnum" where
  "js_min NaN _ = NaN"
| "js_min _ NaN = NaN"
| "js_min a b = (if js_lt b a then b else a)"

fun js_abs :: "jsnum \<Rightarrow> jsnum" where
  "js_abs (Num a) = Num \<bar>a\<bar>"
| "js_abs NaN = NaN"
| "js_abs PInf = PInf"
| "js_abs NInf = PInf"

fun js_round :: "jsnum \<Rightarrow> jsnum" where
  "js_round (Num a) = Num (of_int \<lfloor>a + 1 / 2\<rfloor>)"
| "js_round NaN = NaN"
| "js_round PInf = PInf"
| "js_round NInf = NInf"

fun js_pow2 :: "jsnum \<Rightarrow> jsnum" where
  "js_pow2 (Num a) = Num (a * a)"
| "js_pow2 NaN = NaN"
| "js_pow2 PInf = PInf"
| "js_pow2 NInf = PInf"

fun js_sqrt :: "jsnum \<Rightarrow> jsnum" where
  "js_sqrt (Num a) = (if a < 0 then NaN else Num (sqrt a))"
| "js_sqrt NaN = NaN"
| "js_sqrt PInf = PInf"
| "js_sqrt NInf = NaN"

text \<open>\<^verbatim>\<open>v || 0\<close>: zero and \<^verbatim>\<open>NaN\<close> are falsy.\<close>

fun js_or0 :: "jsnum \<Rightarrow> jsnum" where
  "js_or0 NaN = Num 0"
| "js_or0 a = a"

text \<open>\<^verbatim>\<open>Number(v.toFixed(2))\<close>: two decimals, a tie going away from zero.\<close>

fun js_toFixed2 :: "jsnum \<Rightarrow> jsnum" where
  "js_toFixed2 (Num a) =
     (if a < 0 then Num (- (of_int \<lfloor>- a * 100 + 1 / 2\<rfloor> / 100))
      else Num (of_int \<lfloor>a * 100 + 1 / 2\<rfloor> / 100))"
| "js_toFixed2 a = a"

section \<open>Arrays\<close>

datatype error = TypeError

text \<open>\<^verbatim>\<open>a.reduce((s, v) => s + v, 0)\<close> and \<^verbatim>\<open>a.reduce((a, b) => a + b)\<close>: the second
  has no initial value and throws a \<^verbatim>\<open>TypeError\<close> on an empty array.\<close>

definition js_sum :: "jsnum list \<Rightarrow> jsnum" where
  "js_sum xs = foldl js_add (Num 0) xs"

fun js_reduce_add :: "jsnum list \<Rightarrow> error + jsnum" where
  "js_reduce_add [] = Inl TypeError"
| "js_reduce_add (x # xs) = Inr (foldl js_add x xs)"

text \<open>\<^verbatim>\<open>[...a].sort(cmp)\<close>. The sort of ECMAScript is stable; an element moves behind
  the elements it compares greater than. (With a comparator that is not consistent,
  for instance one that returns \<^verbatim>\<open>NaN\<close>, the order is implementation-defined; the
  model makes one choice.)\<close>

fun js_insert :: "('a \<Rightarrow> 'a \<Rightarrow> jsnum) \<Rightarrow> 'a \<Rightarrow> 'a list \<Rightarrow> 'a list" where
  "js_insert cmp x [] = [x]"
| "js_insert cmp x (y # ys) =
     (if js_gt (cmp x y) (Num 0) then y # js_insert cmp x ys else x # y # ys)"

definition js_sort :: "('a \<Rightarrow> 'a \<Rightarrow> jsnum) \<Rightarrow> 'a list \<Rightarrow> 'a list" where
  "js_sort cmp xs = foldr (js_insert cmp) xs []"

section \<open>Dates\<close>

text \<open>
  A \<^verbatim>\<open>Date\<close> is its time value, the milliseconds since the epoch; the model covers
  valid dates only, and reads the calendar in UTC (the source reads it in the local time
  zone of the browser).
\<close>

type_synonym date = int

definition msPerDay :: int where
  "msPerDay = 1000 * 60 * 60 * 24"

definition getDay :: "date \<Rightarrow> nat" where
  "getDay d = nat ((d div msPerDay + 4) mod 7)"

text \<open>The month (0 to 11) of the proleptic Gregorian calendar, from the day number.\<close>

definition getMonth :: "date \<Rightarrow> nat" where
  "getMonth d =
     (let z = d div msPerDay + 719468;
          doe = z mod 146097;
          yoe = (doe - doe div 1460 + doe div 36524 - doe div 146096) div 365;
          doy = doe - (365 * yoe + yoe div 4 - yoe div 100);
          mp = (5 * doy + 2) div 153
      in nat (if mp < 10 then mp + 2 else mp - 10))"

definition addDays :: "date \<Rightarrow> int \<Rightarrow> date" where
  "addDays d i = d + i * msPerDay"

definition startOfDay :: "date \<Rightarrow> date" where
  "startOfDay d = d - d mod msPerDay"

text \<open>\<^verbatim>\<open>differenceInDays(l, r)\<close>: the full days between, truncated towards zero.\<close>

definition differenceInDays :: "date \<Rightarrow> date \<Rightarrow> int" where
  "differenceInDays l r =
     (if r \<le> l then (l - r) div msPerDay else - ((r - l) div msPerDay))"

section \<open>The regression of the library\<close>

text \<open>
  Modelled from the spec: \<^verbatim>\<open>SimpleLinearRegression\<close> is imported from the package
  \<^verbatim>\<open>ml-regression\<close>, which is not part of the repository. The spec (4.3, 4.7) describes
  it as the ordinary least squares line \<open>y = a + b x\<close>; the model is the closed form of
  that fit over the sums of \<open>x\<close>, \<open>y\<close>, \<open>x\<^sup>2\<close> and \<open>x y\<close>.
\<close>

record SimpleLinearRegression =
  slope :: jsnum
  intercept :: jsnum

definition regress :: "jsnum list \<Rightarrow> jsnum list \<Rightarrow> SimpleLinearRegression" where
  "regress x y =
     (let n = Num (real (length x));
          xSum = js_sum x;
          ySum = js_sum y;
          xSquared = js_sum (map (\<lambda>v. js_mul v v) x);
          xY = js_sum (map2 js_mul x y);
          numerator = js_sub (js_mul n xY) (js_mul xSum ySum);
          sl = js_div numerator (js_sub (js_mul n xSquared) (js_mul xSum xSum));
          ic = js_sub (js_mul (js_div (Num 1) n) ySum)
                      (js_mul (js_mul sl (js_div (Num 1) n)) xSum)
      in \<lparr> slope = sl, intercept = ic \<rparr>)"

definition predict :: "SimpleLinearRegression \<Rightarrow> jsnum \<Rightarrow> jsnum" where
  "predict r v = js_add (js_mul (slope r) v) (intercept r)"

section \<open>forecast.ts\<close>

text \<open>A historical data point. The source keeps the timestamp as a string and reads it
  with \<^verbatim>\<open>new Date\<close>; the model keeps the date it denotes.\<close>

record MetricValues =
  sales :: jsnum
  orders :: jsnum

record Metrics =
  timestamp :: date
  metrics :: MetricValues

text \<open>A forecast point: the fields \<^verbatim>\<open>timestamp\<close> and \<^verbatim>\<open>metrics\<close> of the source's
  \<^verbatim>\<open>ForecastResult\<close> are \<open>forecastTimestamp\<close> and \<open>forecastMetrics\<close> here, and the
  metrics extend those of a data point by the four bounds.\<close>

record ForecastMetrics = MetricValues +
  salesLower :: jsnum
  salesUpper :: jsnum
  ordersLower :: jsnum
  ordersUpper :: jsnum

record ForecastResult =
  forecastTimestamp :: date
  forecastMetrics :: ForecastMetrics
  isForecast :: bool

record ForecastOutcome =
  forecastData :: "ForecastResult list"
  confidence :: jsnum

datatype ForecastRange = R7d | R14d | R1month | R3months | R6months

fun getDaysForRange :: "ForecastRange \<Rightarrow> nat" where
  "getDaysForRange R7d = 7"
| "getDaysForRange R14d = 14"
| "getDaysForRange R1month = 30"
| "getDaysForRange R3months = 90"
| "getDaysForRange R6months = 180"

text \<open>Reading a number array at an index: out of range the source reads
  \<^verbatim>\<open>undefined\<close>, which is \<^verbatim>\<open>NaN\<close> in arithmetic.\<close>

definition elemAt :: "jsnum list \<Rightarrow> nat \<Rightarrow> jsnum" where
  "elemAt xs i = (if i < length xs then xs ! i else NaN)"

text \<open>\<^verbatim>\<open>a.map((value, index) => ...)\<close> and its relatives see each element with its index.\<close>

definition indexed :: "'a list \<Rightarrow> ('a \<times> nat) list" where
  "indexed xs = zip xs [0..<length xs]"

subsection \<open>handleOutliers\<close>

text \<open>The value that replaces an outlier at \<open>index\<close>: the mean of the values of the window
  \<^verbatim>\<open>data.slice(index - 3, index + 4)\<close> that lie within the bounds, or the value itself
  when there is none.\<close>

definition movingAverage :: "jsnum list \<Rightarrow> jsnum \<Rightarrow> jsnum \<Rightarrow> jsnum \<Rightarrow> nat \<Rightarrow> jsnum" where
  "movingAverage data lowerBound upperBound v index =
     (let start = nat (max 0 (int index - 3));
          endIdx = min (length data) (index + 4);
          window = filter (\<lambda>v. js_ge v lowerBound \<and> js_le v upperBound)
                     (take (endIdx - start) (drop start data))
      in case window of
           [] \<Rightarrow> v
         | w # ws \<Rightarrow> js_div (foldl js_add w ws) (Num (real (length window))))"

text \<open>The bounds \<^verbatim>\<open>[q1 - 1.5 * iqr, q3 + 1.5 * iqr]\<close> from the quartiles of the sorted
  copy; the source computes them for four values or more.\<close>

definition outlierBounds :: "jsnum list \<Rightarrow> jsnum \<times> jsnum" where
  "outlierBounds data =
     (let sorted = js_sort js_sub data;
          q1 = sorted ! nat \<lfloor>real (length sorted) * 0.25\<rfloor>;
          q3 = sorted ! nat \<lfloor>real (length sorted) * 0.75\<rfloor>;
          iqr = js_sub q3 q1;
          lowerBound = js_sub q1 (js_mul (Num 1.5) iqr);
          upperBound = js_add q3 (js_mul (Num 1.5) iqr)
      in (lowerBound, upperBound))"

definition handleOutliers :: "jsnum list \<Rightarrow> jsnum list" where
  "handleOutliers data =
     (if length data < 4 then data
      else
        let (lowerBound, upperBound) = outlierBounds data
        in map (\<lambda>(v, index).
                  if js_lt v lowerBound \<or> js_gt v upperBound
                  then movingAverage data lowerBound upperBound v index
                  else v)
               (indexed data))"

subsection \<open>calculateSeasonality\<close>

record Seasonality =
  daily :: "jsnum list"
  weekly :: "jsnum list"
  monthly :: "jsnum list"

text \<open>The sums and counts per bucket that the \<^verbatim>\<open>forEach\<close> loop fills. Where \<open>dates\<close>
  has no entry at the index, the source computes the bucket \<^verbatim>\<open>NaN\<close> and no bucket of
  the arrays changes.\<close>

record buckets =
  dailyPatterns :: "jsnum list"
  dailyCounts :: "nat list"
  monthlyPatterns :: "jsnum list"
  monthlyCounts :: "nat list"

definition dateAt :: "date list \<Rightarrow> nat \<Rightarrow> date option" where
  "dateAt dates i = (if i < length dates then Some (dates ! i) else None)"

definition addToBuckets :: "date list \<Rightarrow> buckets \<Rightarrow> jsnum \<times> nat \<Rightarrow> buckets" where
  "addToBuckets dates b vi =
     (case dateAt dates (snd vi) of
        None \<Rightarrow> b
      | Some d \<Rightarrow>
          (let dayOfWeek = getDay d; month = getMonth d
           in \<lparr> dailyPatterns =
                  (dailyPatterns b)[dayOfWeek := js_add (dailyPatterns b ! dayOfWeek) (fst vi)],
                dailyCounts = (dailyCounts b)[dayOfWeek := dailyCounts b ! dayOfWeek + 1],
                monthlyPatterns =
                  (monthlyPatterns b)[month := js_add (monthlyPatterns b ! month) (fst vi)],
                monthlyCounts = (monthlyCounts b)[month := monthlyCounts b ! month + 1] \<rparr>))"

definition fillBuckets :: "jsnum list \<Rightarrow> date list \<Rightarrow> buckets" where
  "fillBuckets data dates =
     foldl (addToBuckets dates)
       \<lparr> dailyPatterns = replicate 7 (Num 0), dailyCounts = replicate 7 0,
         monthlyPatterns = replicate 12 (Num 0), monthlyCounts = replicate 12 0 \<rparr>
       (indexed data)"

definition bucketFactors :: "jsnum list \<Rightarrow> nat list \<Rightarrow> jsnum \<Rightarrow> jsnum list" where
  "bucketFactors patterns counts overallAverage =
     map (\<lambda>(sum, i). if counts ! i \<noteq> 0
                      then js_div (js_div sum (Num (real (counts ! i)))) overallAverage
                      else Num 1)
         (indexed patterns)"

text \<open>\<^verbatim>\<open>data.filter((_, index) => getDay(dates[index]) === i)\<close>: the values whose date
  falls on day \<open>i\<close> of the week.\<close>

definition onDay :: "date list \<Rightarrow> nat \<Rightarrow> jsnum \<times> nat \<Rightarrow> bool" where
  "onDay dates i = (\<lambda>(v, index). map_option getDay (dateAt dates index) = Some i)"

definition weekValues :: "jsnum list \<Rightarrow> date list \<Rightarrow> nat \<Rightarrow> jsnum list" where
  "weekValues data dates i = map fst (filter (onDay dates i) (indexed data))"

definition weeklyFactor :: "jsnum list \<Rightarrow> date list \<Rightarrow> jsnum \<Rightarrow> nat \<Rightarrow> jsnum" where
  "weeklyFactor data dates overallAverage i =
     (case weekValues data dates i of
        [] \<Rightarrow> Num 1
      | w # ws \<Rightarrow>
          js_div (js_div (foldl js_add w ws) (Num (real (length (weekValues data dates i)))))
                 overallAverage)"

definition weeklyFactors :: "jsnum list \<Rightarrow> date list \<Rightarrow> jsnum \<Rightarrow> jsnum list" where
  "weeklyFactors data dates overallAverage =
     map (weeklyFactor data dates overallAverage) [0..<7]"

definition calculateSeasonality :: "jsnum list \<Rightarrow> date list \<Rightarrow> error + Seasonality" where
  "calculateSeasonality data dates =
     (let b = fillBuckets data dates
      in case js_reduce_add data of
           Inl e \<Rightarrow> Inl e
         | Inr s \<Rightarrow>
             (let overallAverage = js_div s (Num (real (length data)))
              in Inr \<lparr> daily = bucketFactors (dailyPatterns b) (dailyCounts b) overallAverage,
                       weekly = weeklyFactors data dates overallAverage,
                       monthly =
                         bucketFactors (monthlyPatterns b) (monthlyCounts b) overallAverage \<rparr>))"

subsection \<open>calculateConfidenceIntervals\<close>

record Interval =
  lower :: jsnum
  upper :: jsnum

definition calculateConfidenceIntervals ::
  "SimpleLinearRegression \<Rightarrow> jsnum list \<Rightarrow> jsnum list \<Rightarrow> jsnum \<Rightarrow> error + Interval" where
  "calculateConfidenceIntervals regression x y forecastX =
     (let predictions = map (predict regression) x;
          residuals = map (\<lambda>(actual, i). js_sub actual (elemAt predictions i)) (indexed y);
          stdError = js_sqrt (js_div (js_sum (map (\<lambda>r. js_mul r r) residuals))
                                     (Num (real (length y) - 2)))
      in case js_reduce_add x of
           Inl e \<Rightarrow> Inl e
         | Inr s \<Rightarrow>
             (let xMean = js_div s (Num (real (length x)));
                  xSquaredSum = js_sum (map (\<lambda>v. js_pow2 (js_sub v xMean)) x);
                  predictionError =
                    js_mul stdError
                      (js_sqrt (js_add (js_add (Num 1) (js_div (Num 1) (Num (real (length y)))))
                                       (js_div (js_pow2 (js_sub forecastX xMean)) xSquaredSum)));
                  predicted = predict regression forecastX
              in Inr \<lparr> lower = js_max (Num 0)
                                 (js_sub predicted (js_mul (Num 1.96) predictionError)),
                       upper = js_add predicted (js_mul (Num 1.96) predictionError) \<rparr>))"

subsection \<open>The confidence score\<close>

text \<open>\<^verbatim>\<open>calculateConfidence\<close>. Its \<^verbatim>\<open>try\<close> block logs and computes on arrays with
  initial values for every \<^verbatim>\<open>reduce\<close>: nothing in it throws, and the \<^verbatim>\<open>catch\<close>
  branch has no counterpart in the model.\<close>

definition calculateConfidence ::
  "SimpleLinearRegression \<Rightarrow> jsnum list \<Rightarrow> jsnum list \<Rightarrow> jsnum" where
  "calculateConfidence regression x y =
     (let predictions = map (predict regression) x;
          meanY = js_div (js_sum y) (Num (real (length y)));
          ssRes = js_sum (map (\<lambda>(actual, i). js_pow2 (js_sub actual (elemAt predictions i)))
                              (indexed y));
          ssTot = js_sum (map (\<lambda>actual. js_pow2 (js_sub actual meanY)) y)
      in if js_eq ssTot (Num 0) then Num 50
         else
           let rSquared = js_max (Num 0) (js_min (Num 1) (js_sub (Num 1) (js_div ssRes ssTot)));
               baseConfidence = js_mul rSquared (Num 100);
               dataPointsScore = js_min (Num 1) (js_div (Num (real (length x))) (Num 30));
               meanAbsError =
                 js_div (js_sum (map (\<lambda>(actual, i). js_abs (js_sub actual (elemAt predictions i)))
                                     (indexed y)))
                        (Num (real (length y)));
               errorScore = js_max (Num 0) (js_sub (Num 1) (js_div meanAbsError meanY));
               finalConfidence =
                 js_round (js_add (js_add (js_mul baseConfidence (Num 0.4))
                                          (js_mul dataPointsScore (Num 30)))
                                  (js_mul errorScore (Num 30)))
           in js_min (Num 100) (js_max (Num 0) finalConfidence))"

definition calculateVariation :: "jsnum list \<Rightarrow> error + jsnum" where
  "calculateVariation factors =
     (case js_reduce_add factors of
        Inl e \<Rightarrow> Inl e
      | Inr s \<Rightarrow>
          (let mean = js_div s (Num (real (length factors)));
               variance = js_div (js_sum (map (\<lambda>v. js_pow2 (js_sub v mean)) factors))
                                 (Num (real (length factors)))
           in Inr (js_sqrt variance)))"

text \<open>\<^verbatim>\<open>calculateSeasonalityStrength\<close>: an exception of \<^verbatim>\<open>calculateVariation\<close> is
  caught, and the score is then 0.8.\<close>

definition calculateSeasonalityStrength :: "Seasonality \<Rightarrow> Seasonality \<Rightarrow> jsnum" where
  "calculateSeasonalityStrength salesSeasonality ordersSeasonality =
     (case calculateVariation (daily salesSeasonality @ monthly salesSeasonality) of
        Inl e \<Rightarrow> Num 0.8
      | Inr salesVariation \<Rightarrow>
          (case calculateVariation (daily ordersSeasonality @ monthly ordersSeasonality) of
             Inl e \<Rightarrow> Num 0.8
           | Inr ordersVariation \<Rightarrow>
               (let normalizedSalesVar = js_min (Num 1) salesVariation;
                    normalizedOrdersVar = js_min (Num 1) ordersVariation
                in js_add (Num 0.8)
                     (js_min (Num 0.2)
                        (js_div (js_add normalizedSalesVar normalizedOrdersVar) (Num 4))))))"

text \<open>The number of consecutive dates more than a day apart.\<close>

fun gapCount :: "date list \<Rightarrow> nat" where
  "gapCount (a # b # ds) =
     (if js_gt (js_div (Num (real_of_int (b - a))) (Num (real_of_int msPerDay))) (Num 1)
      then 1 else 0) + gapCount (b # ds)"
| "gapCount _ = 0"

definition calculateDataConsistency :: "date list \<Rightarrow> jsnum" where
  "calculateDataConsistency dates =
     (if length dates < 2 then Num 0.5
      else js_max (Num 0.5)
             (js_sub (Num 1)
                (js_div (Num (real (gapCount dates))) (Num (real (length dates))))))"

subsection \<open>generateSalesForecast\<close>

text \<open>Days since the first date, as a number.\<close>

definition daysBetween :: "date \<Rightarrow> date \<Rightarrow> jsnum" where
  "daysBetween d firstDate =
     js_div (Num (real_of_int (d - firstDate))) (Num (real_of_int msPerDay))"

text \<open>The body of the loop over the days to forecast.\<close>

definition forecastPoint ::
  "date \<Rightarrow> date \<Rightarrow> jsnum list \<Rightarrow> jsnum list \<Rightarrow> jsnum list
     \<Rightarrow> SimpleLinearRegression \<Rightarrow> SimpleLinearRegression \<Rightarrow> Seasonality \<Rightarrow> Seasonality
     \<Rightarrow> nat \<Rightarrow> error + ForecastResult" where
  "forecastPoint today firstDate x ySales yOrders salesRegression ordersRegression
       salesSeasonality ordersSeasonality i =
     (let forecastDate = addDays today (int i);
          daysSinceStart = daysBetween forecastDate firstDate;
          dayOfWeek = getDay forecastDate;
          month = getMonth forecastDate
      in case calculateConfidenceIntervals salesRegression x ySales daysSinceStart of
           Inl e \<Rightarrow> Inl e
         | Inr salesIntervals \<Rightarrow>
        (case calculateConfidenceIntervals ordersRegression x yOrders daysSinceStart of
           Inl e \<Rightarrow> Inl e
         | Inr ordersIntervals \<Rightarrow>
             (let salesSeasonalFactor =
                    js_mul (elemAt (daily salesSeasonality) dayOfWeek)
                           (elemAt (monthly salesSeasonality) month);
                  ordersSeasonalFactor =
                    js_mul (elemAt (daily ordersSeasonality) dayOfWeek)
                           (elemAt (monthly ordersSeasonality) month);
                  predictedSales =
                    js_max (Num 0)
                      (js_round (js_mul (predict salesRegression daysSinceStart)
                                        salesSeasonalFactor));
                  predictedOrders =
                    js_max (Num 0)
                      (js_round (js_mul (predict ordersRegression daysSinceStart)
                                        ordersSeasonalFactor))
              in Inr \<lparr> forecastTimestamp = forecastDate,
                       forecastMetrics =
                         \<lparr> sales = predictedSales,
                           orders = predictedOrders,
                           salesLower =
                             js_max (Num 0)
                               (js_round (js_mul (lower salesIntervals) salesSeasonalFactor)),
                           salesUpper =
                             js_round (js_mul (upper salesIntervals) salesSeasonalFactor),
                           ordersLower =
                             js_max (Num 0)
                               (js_round (js_mul (lower ordersIntervals) ordersSeasonalFactor)),
                           ordersUpper =
                             js_round (js_mul (upper ordersIntervals) ordersSeasonalFactor) \<rparr>,
                       isForecast = True \<rparr>)))"

text \<open>The loop: the points in order; an exception ends it.\<close>

fun forecastLoop :: "(nat \<Rightarrow> error + ForecastResult) \<Rightarrow> nat list \<Rightarrow> error + ForecastResult list"
  where
  "forecastLoop body [] = Inr []"
| "forecastLoop body (i # is) =
     (case body i of
        Inl e \<Rightarrow> Inl e
      | Inr p \<Rightarrow> (case forecastLoop body is of Inl e \<Rightarrow> Inl e | Inr ps \<Rightarrow> Inr (p # ps)))"

text \<open>The combination of the scores into the confidence of the forecast.\<close>

definition overallConfidence ::
  "nat \<Rightarrow> date list \<Rightarrow> jsnum list \<Rightarrow> jsnum list \<Rightarrow> jsnum list
     \<Rightarrow> SimpleLinearRegression \<Rightarrow> SimpleLinearRegression \<Rightarrow> Seasonality \<Rightarrow> Seasonality
     \<Rightarrow> jsnum" where
  "overallConfidence n dates x ySales yOrders salesRegression ordersRegression
       salesSeasonality ordersSeasonality =
     (let salesConfidence = calculateConfidence salesRegression x ySales;
          ordersConfidence = calculateConfidence ordersRegression x yOrders;
          dataQualityScore = js_min (Num 1) (js_div (Num (real n)) (Num 60));
          consistencyScore = calculateDataConsistency dates;
          seasonalityScore = calculateSeasonalityStrength salesSeasonality ordersSeasonality;
          averageConfidence =
            js_round
              (js_mul (js_mul (js_mul (js_div (js_add salesConfidence ordersConfidence) (Num 2))
                                      dataQualityScore)
                              seasonalityScore)
                      consistencyScore)
      in js_min (Num 100) (js_max (Num 0) averageConfidence))"

text \<open>\<^verbatim>\<open>generateSalesForecast(historicalData, range)\<close>; the third argument is the clock,
  \<^verbatim>\<open>new Date()\<close>.\<close>

definition generateSalesForecast ::
  "Metrics list \<Rightarrow> ForecastRange \<Rightarrow> date \<Rightarrow> error + ForecastOutcome" where
  "generateSalesForecast historicalData range' now =
     (if historicalData = [] then Inr \<lparr> forecastData = [], confidence = Num 0 \<rparr>
      else if length historicalData < 7
        then Inr \<lparr> forecastData = [],
                   confidence = js_min (Num 50) (Num (real (length historicalData * 7))) \<rparr>
      else
        let sortedData =
              js_sort (\<lambda>a b. Num (real_of_int (timestamp a - timestamp b))) historicalData;
            dates = map timestamp sortedData;
            firstDate = hd dates;
            x = map (\<lambda>d. daysBetween d firstDate) dates;
            rawSales = map (\<lambda>d. js_or0 (sales (metrics d))) sortedData;
            rawOrders = map (\<lambda>d. js_or0 (orders (metrics d))) sortedData
        in if list_all (\<lambda>v. js_eq v (Num 0)) rawSales \<or> list_all (\<lambda>v. js_eq v (Num 0)) rawOrders
           then Inr \<lparr> forecastData = [], confidence = Num 0 \<rparr>
           else
             let ySales = handleOutliers rawSales;
                 yOrders = handleOutliers rawOrders;
                 salesRegression = regress x ySales;
                 ordersRegression = regress x yOrders
             in case calculateSeasonality ySales dates of
                  Inl e \<Rightarrow> Inl e
                | Inr salesSeasonality \<Rightarrow>
               (case calculateSeasonality yOrders dates of
                  Inl e \<Rightarrow> Inl e
                | Inr ordersSeasonality \<Rightarrow>
               (case forecastLoop
                       (forecastPoint (startOfDay now) firstDate x ySales yOrders
                          salesRegression ordersRegression salesSeasonality ordersSeasonality)
                       [0..<getDaysForRange range'] of
                  Inl e \<Rightarrow> Inl e
                | Inr forecast \<Rightarrow>
                    Inr \<lparr> forecastData = forecast,
                          confidence =
                            overallConfidence (length historicalData) dates x ySales yOrders
                              salesRegression ordersRegression
                              salesSeasonality ordersSeasonality \<rparr>)))"

section \<open>priceOptimization.ts\<close>

text \<open>An observation of the demand. Its field \<^verbatim>\<open>timestamp\<close>, a string that the
  module never reads, is \<open>saleTimestamp\<close> here.\<close>

record SalesData =
  price :: jsnum
  quantity :: jsnum
  saleTimestamp :: string

record ExpectedQuantity =
  daily :: jsnum
  total :: jsnum

record PriceElasticity =
  elasticityValue :: jsnum
  elasticityInterpretation :: string

record OptimizationResult =
  optimalDiscount :: jsnum
  optimalPrice :: jsnum
  originalPrice :: jsnum
  expectedRevenue :: jsnum
  expectedProfit :: jsnum
  confidence :: jsnum
  dailyRevenue :: jsnum
  dailyProfit :: jsnum
  campaignDays :: int
  expectedQuantity :: ExpectedQuantity
  priceElasticity :: PriceElasticity

record CampaignPeriod =
  startDate :: date
  endDate :: date

datatype goal = Profit | Sales | Inventory

definition interpretElasticity :: "jsnum \<Rightarrow> string" where
  "interpretElasticity elasticity =
     (if js_lt elasticity (Num 0.5)
        then ''Inelastic - Demand is not very sensitive to price changes''
      else if js_lt elasticity (Num 1)
        then ''Moderately elastic - Demand shows some response to price changes''
      else if js_lt elasticity (Num 2)
        then ''Elastic - Demand is sensitive to price changes''
      else ''Highly elastic - Demand is very sensitive to price changes'')"

definition average_quantity_at :: "SalesData list \<Rightarrow> jsnum \<Rightarrow> jsnum" where
  "average_quantity_at salesData p =
     js_div (js_sum (map quantity (filter (\<lambda>d. js_eq (price d) p) salesData)))
            (Num (real (length (filter (\<lambda>d. js_eq (price d) p) salesData))))"

definition calculatePriceElasticity :: "SalesData list \<Rightarrow> jsnum" where
  "calculatePriceElasticity salesData =
     (if length salesData < 2 then Num (- 1)
      else
        let sortedByPrice = js_sort (\<lambda>a b. js_sub (price a) (price b)) salesData;
            p1 = price (hd sortedByPrice);
            p2 = price (last sortedByPrice);
            q1 = average_quantity_at salesData p1;
            q2 = average_quantity_at salesData p2;
            percentPriceChange = js_div (js_sub p2 p1) p1;
            percentQuantityChange = js_div (js_sub q2 q1) q1
        in js_abs (js_div percentQuantityChange percentPriceChange))"

definition calculateSeasonalityFactor :: "date \<Rightarrow> jsnum" where
  "calculateSeasonalityFactor d =
     (let dayOfWeek = getDay d
      in if dayOfWeek = 0 then Num 1.1
         else if dayOfWeek = 5 \<or> dayOfWeek = 6 then Num 1.3
         else Num 0.9)"

definition calculateTimePressureFactor :: "int \<Rightarrow> jsnum" where
  "calculateTimePressureFactor days =
     (let maxPressure = 1.5; minPressure = 1.0;
          shortCampaign = 7; longCampaign = 30
      in if days \<le> shortCampaign then Num maxPressure
         else if days \<ge> longCampaign then Num minPressure
         else Num (maxPressure -
                (maxPressure - minPressure) * real_of_int (days - shortCampaign)
                  / real_of_int (longCampaign - shortCampaign)))"

text \<open>The 50 candidate prices.\<close>

definition pricePoints :: "jsnum \<Rightarrow> jsnum \<Rightarrow> jsnum list" where
  "pricePoints minPrice maxPrice =
     map (\<lambda>i. js_round (js_add minPrice
                 (js_div (js_mul (Num (real i)) (js_sub maxPrice minPrice)) (Num 49))))
         [0..<50]"

text \<open>The campaign: its length in days, the seasonality factor of each of its days and
  the time pressure factor; one day, factor 1 and pressure 1 without a campaign period.\<close>

record campaign =
  cDays :: int
  seasonalityFactors :: "jsnum list"
  timePressureFactor :: jsnum

definition campaign_of :: "CampaignPeriod option \<Rightarrow> campaign" where
  "campaign_of campaignPeriod =
     (case campaignPeriod of
        None \<Rightarrow> \<lparr> cDays = 1, seasonalityFactors = [Num 1], timePressureFactor = Num 1 \<rparr>
      | Some p \<Rightarrow>
          (let days = differenceInDays (endDate p) (startDate p) + 1
           in \<lparr> cDays = days,
                seasonalityFactors =
                  map (\<lambda>i. calculateSeasonalityFactor (addDays (startDate p) (int i)))
                      [0..<nat days],
                timePressureFactor = calculateTimePressureFactor days \<rparr>))"

text \<open>The quantity of a whole campaign at a price:
  \<^verbatim>\<open>Math.round(seasonalityFactors.reduce((sum, f) => sum + baseQuantity * f, 0))\<close> with
  \<^verbatim>\<open>baseQuantity = Math.max(0, Math.round(regression.predict(price)))\<close>.\<close>

definition totalQuantityAt :: "SimpleLinearRegression \<Rightarrow> campaign \<Rightarrow> jsnum \<Rightarrow> jsnum" where
  "totalQuantityAt regression c p =
     (let baseQuantity = js_max (Num 0) (js_round (predict regression p))
      in js_round (foldl (\<lambda>sum factor. js_add sum (js_mul baseQuantity factor))
                         (Num 0) (seasonalityFactors c)))"

definition objectiveValue ::
  "goal \<Rightarrow> jsnum \<Rightarrow> campaign \<Rightarrow> jsnum \<Rightarrow> jsnum \<Rightarrow> jsnum \<Rightarrow> jsnum \<Rightarrow> jsnum" where
  "objectiveValue g cost c avgDailyQuantity p totalQuantity dailyQuantity =
     (case g of
        Profit \<Rightarrow> js_mul (js_sub p cost) totalQuantity
      | Sales \<Rightarrow> js_mul p totalQuantity
      | Inventory \<Rightarrow>
          (let profitMargin = js_div (js_sub p cost) p;
               quantityImprovement = js_div dailyQuantity avgDailyQuantity
           in js_mul (js_add (js_mul (js_mul quantityImprovement (Num 0.6))
                                      (timePressureFactor c))
                             (js_mul profitMargin (Num 0.4)))
                     totalQuantity))"

text \<open>The variables the loop over the candidates updates, and one round of the loop.\<close>

record search =
  maxObjectiveValue :: jsnum
  bestPrice :: jsnum
  optimalDailyQuantity :: jsnum
  optimalTotalQuantity :: jsnum

definition testPrice ::
  "SimpleLinearRegression \<Rightarrow> goal \<Rightarrow> jsnum \<Rightarrow> campaign \<Rightarrow> jsnum \<Rightarrow> search \<Rightarrow> jsnum \<Rightarrow> search"
  where
  "testPrice regression g cost c avgDailyQuantity s p =
     (let totalQuantity = totalQuantityAt regression c p;
          dailyQuantity = js_round (js_div totalQuantity (Num (real_of_int (cDays c))));
          ov = objectiveValue g cost c avgDailyQuantity p totalQuantity dailyQuantity
      in if js_gt ov (maxObjectiveValue s)
         then \<lparr> maxObjectiveValue = ov, bestPrice = p,
                optimalDailyQuantity = dailyQuantity,
                optimalTotalQuantity = totalQuantity \<rparr>
         else s)"

definition searchPrices ::
  "SimpleLinearRegression \<Rightarrow> goal \<Rightarrow> jsnum \<Rightarrow> campaign \<Rightarrow> jsnum \<Rightarrow> jsnum \<Rightarrow> jsnum list
     \<Rightarrow> search" where
  "searchPrices regression g cost c avgDailyQuantity currentPrice points =
     foldl (testPrice regression g cost c avgDailyQuantity)
       \<lparr> maxObjectiveValue = Num 0, bestPrice = currentPrice,
         optimalDailyQuantity = Num 0, optimalTotalQuantity = Num 0 \<rparr>
       points"

text \<open>The fit quality \<^verbatim>\<open>1 - ssRes / ssTot\<close> of the demand regression, from the mean
  quantity \<^verbatim>\<open>meanY\<close>.\<close>

definition rSquaredOf ::
  "SimpleLinearRegression \<Rightarrow> jsnum list \<Rightarrow> jsnum list \<Rightarrow> jsnum \<Rightarrow> jsnum" where
  "rSquaredOf regression x y meanY =
     (let predictedY = map (predict regression) x;
          ssRes = js_sum (map2 (\<lambda>actual p. js_pow2 (js_sub actual p)) y predictedY);
          ssTot = js_sum (map (\<lambda>actual. js_pow2 (js_sub actual meanY)) y)
      in js_sub (Num 1) (js_div ssRes ssTot))"

definition optimizePrice ::
  "jsnum \<Rightarrow> jsnum \<Rightarrow> SalesData list \<Rightarrow> goal \<Rightarrow> jsnum \<Rightarrow> jsnum \<Rightarrow> CampaignPeriod option
     \<Rightarrow> error + OptimizationResult" where
  "optimizePrice currentPrice cost salesData g minDiscount maxDiscount campaignPeriod =
     (let elasticity = calculatePriceElasticity salesData;
          minPrice = js_mul currentPrice (js_sub (Num 1) (js_div maxDiscount (Num 100)));
          maxPrice = js_mul currentPrice (js_sub (Num 1) (js_div minDiscount (Num 100)));
          x = map price salesData;
          y = map quantity salesData;
          regression = regress x y
      in case js_reduce_add y of
           Inl e \<Rightarrow> Inl e
         | Inr ySum \<Rightarrow>
            (let meanY = js_div ySum (Num (real (length y)));
                 rSquared = rSquaredOf regression x y meanY;
                 c = campaign_of campaignPeriod;
                 days = Num (real_of_int (cDays c));
                 avgDailyQuantity = js_div (js_sum y) (Num (real (length y)));
                 s = searchPrices regression g cost c avgDailyQuantity currentPrice
                       (pricePoints minPrice maxPrice);
                 discountPercentage =
                   js_mul (js_div (js_sub currentPrice (bestPrice s)) currentPrice) (Num 100);
                 totalQuantity = totalQuantityAt regression c (bestPrice s);
                 dailyRev = js_round (js_div (js_mul (bestPrice s) totalQuantity) days);
                 dailyProf =
                   js_round (js_div (js_mul (js_sub (bestPrice s) cost) totalQuantity) days);
                 campaignRevenue = js_mul dailyRev days;
                 campaignProfit = js_mul dailyProf days
             in Inr \<lparr> optimalDiscount = js_round discountPercentage,
                      optimalPrice = js_round (bestPrice s),
                      originalPrice = js_round currentPrice,
                      expectedRevenue = js_round campaignRevenue,
                      expectedProfit = js_round campaignProfit,
                      confidence = js_round (js_mul rSquared (Num 100)),
                      dailyRevenue = js_round dailyRev,
                      dailyProfit = js_round dailyProf,
                      campaignDays = cDays c,
                      expectedQuantity =
                        \<lparr> daily = js_round (optimalDailyQuantity s),
                          total = js_round (optimalTotalQuantity s) \<rparr>,
                      priceElasticity =
                        \<lparr> elasticityValue = js_toFixed2 elasticity,
                          elasticityInterpretation = interpretElasticity elasticity \<rparr> \<rparr>))"

section \<open>Inputs of the examples\<close>

text \<open>Demand observations: two prices with the same quantity, and a demand that falls
  from 20 units at 80 to 10 units at 100.\<close>

definition sale :: "real \<Rightarrow> real \<Rightarrow> string \<Rightarrow> SalesData" where
  "sale p q t = \<lparr> price = Num p, quantity = Num q, saleTimestamp = t \<rparr>"

definition flatDemand :: "SalesData list" where
  "flatDemand = [sale 10 5 ''2025-04-01'', sale 20 5 ''2025-04-02'']"

definition fallingDemand :: "SalesData list" where
  "fallingDemand = [sale 100 10 ''2025-04-01'', sale 80 20 ''2025-04-02'']"

text \<open>A campaign of ten days, from 2025-04-01 (day 20179 since the epoch) to 2025-04-10.\<close>

definition aprilCampaign :: CampaignPeriod where
  "aprilCampaign = \<lparr> startDate = 20179 * msPerDay, endDate = 20188 * msPerDay \<rparr>"

definition flatDemandResult :: OptimizationResult where
  "flatDemandResult =
     \<lparr> optimalDiscount = Num 0, optimalPrice = Num 100, originalPrice = Num 100,
       expectedRevenue = Num 500, expectedProfit = Num 250, confidence = NaN,
       dailyRevenue = Num 500, dailyProfit = Num 250, campaignDays = 1,
       expectedQuantity = \<lparr> daily = Num 5, total = Num 5 \<rparr>,
       priceElasticity =
         \<lparr> elasticityValue = Num 0,
           elasticityInterpretation =
             ''Inelastic - Demand is not very sensitive to price changes'' \<rparr> \<rparr>"


definition aprilResult :: OptimizationResult where
  "aprilResult =
     \<lparr> optimalDiscount = Num 9, optimalPrice = Num 91, originalPrice = Num 100,
       expectedRevenue = Num 13650, expectedProfit = Num 4650, confidence = Num 100,
       dailyRevenue = Num 1365, dailyProfit = Num 465, campaignDays = 10,
       expectedQuantity = \<lparr> daily = Num 15, total = Num 150 \<rparr>,
       priceElasticity =
         \<lparr> elasticityValue = Num 2,
           elasticityInterpretation =
             ''Highly elastic - Demand is very sensitive to price changes'' \<rparr> \<rparr>"

text \<open>Histories of daily metrics from 2025-04-01 on, and the clock: 2025-04-11, 10:30.\<close>

definition day :: "int \<Rightarrow> real \<Rightarrow> real \<Rightarrow> Metrics" where
  "day n s ord = \<lparr> timestamp = n * msPerDay, metrics = \<lparr> sales = Num s, orders = Num ord \<rparr> \<rparr>"

definition clock :: date where
  "clock = 20189 * msPerDay + 37800000"

definition decliningHistory :: "Metrics list" where
  "decliningHistory =
     [day 20179 700 140, day 20180 600 120, day 20181 500 100, day 20182 400 80,
      day 20183 300 60, day 20184 200 40, day 20185 100 20]"

definition firstSaleHistory :: "Metrics list" where
  "firstSaleHistory =
     [day 20179 0 0, day 20180 0 0, day 20181 0 0, day 20182 0 0,
      day 20183 0 0, day 20184 0 0, day 20185 100 4]"

definition noSalesHistory :: "Metrics list" where
  "noSalesHistory =
     [day 20179 0 3, day 20180 0 1, day 20181 0 2, day 20182 0 1,
      day 20183 0 3, day 20184 0 1, day 20185 0 2]"

definition sixDays :: "Metrics list" where
  "sixDays =
     [day 20179 10 3, day 20180 20 1, day 20181 10 2, day 20182 30 1,
      day 20183 20 3, day 20184 10 1]"

definition spikeSeries :: "jsnum list" where
  "spikeSeries = map Num [10, 12, 11, 500, 9, 13, 10, 11]"

definition point :: "int \<Rightarrow> jsnum \<Rightarrow> jsnum \<Rightarrow> jsnum \<Rightarrow> jsnum \<Rightarrow> jsnum \<Rightarrow> jsnum \<Rightarrow> ForecastResult"
  where
  "point n s ord sl su ol ou =
     \<lparr> forecastTimestamp = n * msPerDay,
       forecastMetrics =
         \<lparr> sales = s, orders = ord, salesLower = sl, salesUpper = su,
           ordersLower = ol, ordersUpper = ou \<rparr>,
       isForecast = True \<rparr>"

definition decliningForecast :: "ForecastResult list" where
  "decliningForecast =
     [point 20189 (Num 0) (Num 0) (Num 0) (Num (- 300)) (Num 0) (Num (- 60)),
      point 20190 (Num 0) (Num 0) (Num 0) (Num (- 300)) (Num 0) (Num (- 60)),
      point 20191 (Num 0) (Num 0) (Num 0) (Num (- 250)) (Num 0) (Num (- 50)),
      point 20192 (Num 0) (Num 0) (Num 0) (Num (- 150)) (Num 0) (Num (- 30)),
      point 20193 (Num 0) (Num 0) (Num 0) (Num (- 1225)) (Num 0) (Num (- 245)),
      point 20194 (Num 0) (Num 0) (Num 0) (Num (- 1200)) (Num 0) (Num (- 240)),
      point 20195 (Num 0) (Num 0) (Num 0) (Num (- 1125)) (Num 0) (Num (- 225))]"

definition decliningSeasonality :: Seasonality where
  "decliningSeasonality =
     \<lparr> Seasonality.daily = map Num [1 / 2, 1 / 4, 7 / 4, 3 / 2, 5 / 4, 1, 3 / 4],
       weekly = map Num [1 / 2, 1 / 4, 7 / 4, 3 / 2, 5 / 4, 1, 3 / 4],
       monthly = map Num [1, 1, 1, 1, 1, 1, 1, 1, 1, 1, 1, 1] \<rparr>"

definition firstSaleSeasonality :: Seasonality where
  "firstSaleSeasonality =
     \<lparr> Seasonality.daily = [NaN, NaN, NaN, NaN, NaN, NaN, NaN],
       weekly = [NaN, NaN, NaN, NaN, NaN, NaN, NaN],
       monthly = [Num 1, Num 1, Num 1, NaN, Num 1, Num 1, Num 1, Num 1, Num 1, Num 1,
                  Num 1, Num 1] \<rparr>"

definition firstSaleForecast :: "ForecastResult list" where
  "firstSaleForecast =
     map (\<lambda>n. point n NaN NaN NaN NaN NaN NaN)
       [20189, 20190, 20191, 20192, 20193, 20194, 20195]"

section \<open>Facts about numbers, arrays and sorting\<close>

lemma js_round_idem: "js_round (js_round a) = js_round a"
  by (cases a) simp_all

lemma floor_int_half: "\<lfloor>real_of_int z + 1 / 2\<rfloor> = z"
  by linarith

lemma js_round_int: "js_round (Num (real_of_int z)) = Num (real_of_int z)"
  by (simp add: floor_int_half)

lemma js_round_mul_int:
  "js_round (js_mul (js_round a) (Num (real_of_int k))) = js_mul (js_round a) (Num (real_of_int k))"
proof (cases a)
  case (Num r)
  have "js_mul (js_round a) (Num (real_of_int k)) = Num (real_of_int (\<lfloor>r + 1 / 2\<rfloor> * k))"
    by (simp add: Num)
  then show ?thesis by (simp only: js_round_int)
qed simp_all

lemma js_add_zero_left: "js_add (Num 0) v = v"
  by (cases v) simp_all

lemma js_min_nat: "js_min (Num 50) (Num (real n)) = Num (real (min 50 n))"
  by (simp add: min_def)

lemma length_indexed: "length (indexed xs) = length xs"
  by (simp add: indexed_def)

lemma nth_indexed: "i < length xs \<Longrightarrow> indexed xs ! i = (xs ! i, i)"
  by (simp add: indexed_def)

lemma set_js_insert: "set (js_insert cmp x ys) = insert x (set ys)"
  by (induction ys) auto

lemma set_js_sort: "set (js_sort cmp xs) = set xs"
  by (induction xs) (simp_all add: js_sort_def set_js_insert)

lemma getDay_less: "getDay d < 7"
  by (simp add: getDay_def)

section \<open>The outlier filter\<close>

lemma handleOutliers_short: "length data < 4 \<Longrightarrow> handleOutliers data = data"
  by (simp add: handleOutliers_def)

lemma handleOutliers_length: "length (handleOutliers data) = length data"
  by (simp add: handleOutliers_def length_indexed split: prod.split)

lemma handleOutliers_nth:
  assumes "i < length data"
  shows "handleOutliers data ! i = data ! i
       \<or> handleOutliers data ! i =
           movingAverage data (fst (outlierBounds data)) (snd (outlierBounds data)) (data ! i) i"
  using assms
  by (simp add: handleOutliers_def length_indexed nth_indexed split: prod.split)

text \<open>
  Claim C8. For every series, the empty one and those of one element too, the outlier
  filter returns a series of the same length; each position holds the value of the
  input at that position or the moving average that replaces it; and a series of fewer
  than four values is returned unchanged.
\<close>

theorem handleOutliers_preserves_length:
  "length (handleOutliers data) = length data
   \<and> (\<forall>i < length data.
         handleOutliers data ! i = data ! i
       \<or> handleOutliers data ! i =
           movingAverage data (fst (outlierBounds data)) (snd (outlierBounds data)) (data ! i) i)
   \<and> (length data < 4 \<longrightarrow> handleOutliers data = data)"
  using handleOutliers_length handleOutliers_nth handleOutliers_short by blast

theorem handleOutliers_preserves_length_witness:
  "length (handleOutliers spikeSeries) = 8
   \<and> handleOutliers spikeSeries ! 3 = Num (65 / 6)
   \<and> handleOutliers spikeSeries ! 4 = Num 9
   \<and> handleOutliers [Num 7] = [Num 7]
   \<and> handleOutliers [] = []"
proof -
  have len: "length spikeSeries = 8"
    by (simp add: spikeSeries_def)
  have bounds: "outlierBounds spikeSeries = (Num (11 / 2), Num (35 / 2))"
    by code_simp
  have avg: "movingAverage spikeSeries (Num (11 / 2)) (Num (35 / 2)) (spikeSeries ! 3) 3
               = Num (65 / 6)"
    by code_simp
  have out: "handleOutliers spikeSeries ! 3 \<noteq> spikeSeries ! 3"
    and "handleOutliers spikeSeries ! 4 = Num 9"
    by code_simp+
  moreover
  from handleOutliers_preserves_length [of spikeSeries] len
  have "length (handleOutliers spikeSeries) = 8"
    and "handleOutliers spikeSeries ! 3 = spikeSeries ! 3
       \<or> handleOutliers spikeSeries ! 3 =
           movingAverage spikeSeries (fst (outlierBounds spikeSeries))
             (snd (outlierBounds spikeSeries)) (spikeSeries ! 3) 3"
    by simp_all
  moreover
  from handleOutliers_preserves_length [of "[Num 7]"] handleOutliers_preserves_length [of "[]"]
  have "handleOutliers [Num 7] = [Num 7]" and "handleOutliers [] = []"
    by simp_all
  ultimately show ?thesis
    by (simp add: bounds avg)
qed

section \<open>The seasonality factors\<close>

lemma weekValues_onDay: "weekValues data dates i = map fst (filter (onDay dates i) (indexed data))"
  by (simp add: weekValues_def)

lemma addToBuckets_daily:
  assumes "length (dailyPatterns b) = 7" and "length (dailyCounts b) = 7" and "i < 7"
  shows "dailyPatterns (addToBuckets dates b vi) ! i =
           (if onDay dates i vi then js_add (dailyPatterns b ! i) (fst vi) else dailyPatterns b ! i)"
    and "dailyCounts (addToBuckets dates b vi) ! i =
           (if onDay dates i vi then dailyCounts b ! i + 1 else dailyCounts b ! i)"
    and "length (dailyPatterns (addToBuckets dates b vi)) = 7"
    and "length (dailyCounts (addToBuckets dates b vi)) = 7"
  using assms getDay_less
  by (auto simp add: addToBuckets_def onDay_def Let_def nth_list_update
           split: option.splits prod.splits)

lemma fold_daily:
  assumes "length (dailyPatterns b) = 7" and "length (dailyCounts b) = 7" and "i < 7"
  shows "dailyPatterns (foldl (addToBuckets dates) b vis) ! i =
           foldl js_add (dailyPatterns b ! i) (map fst (filter (onDay dates i) vis))
       \<and> dailyCounts (foldl (addToBuckets dates) b vis) ! i =
           dailyCounts b ! i + length (filter (onDay dates i) vis)
       \<and> length (dailyPatterns (foldl (addToBuckets dates) b vis)) = 7
       \<and> length (dailyCounts (foldl (addToBuckets dates) b vis)) = 7"
  using assms
proof (induction vis arbitrary: b)
  case Nil
  then show ?case by simp
next
  case (Cons vi vis)
  note step = addToBuckets_daily [OF Cons.prems(1) Cons.prems(2), of _ dates vi]
  have "length (dailyPatterns (addToBuckets dates b vi)) = 7"
    and "length (dailyCounts (addToBuckets dates b vi)) = 7"
    using step(3,4) Cons.prems(3) by blast+
  from Cons.IH [OF this Cons.prems(3)] step(1,2) [OF Cons.prems(3)]
  show ?case by simp
qed

lemma fillBuckets_daily:
  assumes "i < 7"
  shows "dailyPatterns (fillBuckets data dates) ! i =
           foldl js_add (Num 0) (map fst (filter (onDay dates i) (indexed data)))"
    and "dailyCounts (fillBuckets data dates) ! i = length (filter (onDay dates i) (indexed data))"
proof -
  let ?b = "\<lparr> dailyPatterns = replicate 7 (Num 0), dailyCounts = replicate 7 0,
         monthlyPatterns = replicate 12 (Num 0), monthlyCounts = replicate 12 0 \<rparr>"
  have "length (dailyPatterns ?b) = 7" and "length (dailyCounts ?b) = 7" by simp_all
  from fold_daily [OF this assms, of dates "indexed data"] assms
  show "dailyPatterns (fillBuckets data dates) ! i =
           foldl js_add (Num 0) (map fst (filter (onDay dates i) (indexed data)))"
    and "dailyCounts (fillBuckets data dates) ! i = length (filter (onDay dates i) (indexed data))"
    unfolding fillBuckets_def by simp_all
qed

lemma fillBuckets_length: "length (dailyPatterns (fillBuckets data dates)) = 7"
proof -
  let ?b = "\<lparr> dailyPatterns = replicate 7 (Num 0), dailyCounts = replicate 7 0,
         monthlyPatterns = replicate 12 (Num 0), monthlyCounts = replicate 12 0 \<rparr>"
  have "length (dailyPatterns ?b) = 7" and "length (dailyCounts ?b) = 7" and "(0::nat) < 7"
    by simp_all
  from fold_daily [OF this, of dates "indexed data"]
  show ?thesis unfolding fillBuckets_def by blast
qed

lemma bucketFactors_nth:
  assumes "i < length patterns"
  shows "bucketFactors patterns counts avg ! i =
           (if counts ! i \<noteq> 0
            then js_div (js_div (patterns ! i) (Num (real (counts ! i)))) avg else Num 1)"
  using assms by (simp add: bucketFactors_def length_indexed nth_indexed)

lemma daily_eq_weekly:
  "bucketFactors (dailyPatterns (fillBuckets data dates)) (dailyCounts (fillBuckets data dates)) avg
     = weeklyFactors data dates avg"
proof (rule nth_equalityI)
  show "length (bucketFactors (dailyPatterns (fillBuckets data dates))
           (dailyCounts (fillBuckets data dates)) avg) = length (weeklyFactors data dates avg)"
    by (simp add: bucketFactors_def weeklyFactors_def length_indexed fillBuckets_length)
next
  fix i
  assume "i < length (bucketFactors (dailyPatterns (fillBuckets data dates))
           (dailyCounts (fillBuckets data dates)) avg)"
  then have i: "i < 7"
    by (simp add: bucketFactors_def length_indexed fillBuckets_length)
  let ?vs = "weekValues data dates i"
  have l: "bucketFactors (dailyPatterns (fillBuckets data dates))
           (dailyCounts (fillBuckets data dates)) avg ! i =
        (if length ?vs \<noteq> 0
         then js_div (js_div (foldl js_add (Num 0) ?vs) (Num (real (length ?vs)))) avg
         else Num 1)"
    using i by (simp add: bucketFactors_nth fillBuckets_length fillBuckets_daily weekValues_onDay)
  have r: "weeklyFactors data dates avg ! i = weeklyFactor data dates avg i"
    using i by (simp add: weeklyFactors_def del: upt_Suc)
  show "bucketFactors (dailyPatterns (fillBuckets data dates))
           (dailyCounts (fillBuckets data dates)) avg ! i = weeklyFactors data dates avg ! i"
    unfolding l r weeklyFactor_def by (cases ?vs) (simp_all add: js_add_zero_left)
qed

lemma calculateSeasonality_returns:
  "data \<noteq> [] \<Longrightarrow> \<exists>s. calculateSeasonality data dates = Inr s"
  by (cases data) (simp_all add: calculateSeasonality_def Let_def)

text \<open>
  Claim C7. For every series and every list of dates on which the seasonality analysis
  returns (it throws on the empty series and returns on every other one, by
  \<open>calculateSeasonality_returns\<close>), the daily and the weekly factors are the same list:
  seven factors, equal position by position. Equality is that of the values of the
  model, in which two factors that are both \<^verbatim>\<open>NaN\<close> (an overall average of zero)
  are equal.
\<close>

theorem daily_equals_weekly:
  assumes "calculateSeasonality data dates = Inr s"
  shows "Seasonality.daily s = weekly s \<and> length (weekly s) = 7"
  using assms
  by (auto simp add: calculateSeasonality_def Let_def daily_eq_weekly weeklyFactors_def
           split: sum.splits)

theorem daily_equals_weekly_witness:
  "calculateSeasonality (map Num [700, 600, 500, 400, 300, 200, 100]) (map timestamp decliningHistory)
     = Inr decliningSeasonality
   \<and> Seasonality.daily decliningSeasonality = weekly decliningSeasonality
   \<and> length (weekly decliningSeasonality) = 7"
proof -
  have e: "calculateSeasonality (map Num [700, 600, 500, 400, 300, 200, 100])
             (map timestamp decliningHistory) = Inr decliningSeasonality"
    by code_simp
  from daily_equals_weekly [OF e] e show ?thesis by simp
qed

section \<open>The gates of the forecast\<close>

text \<open>
  Claim C6. A history that is not empty and has fewer than seven observations gives no
  forecast point and the confidence \<open>min 50 (7 n)\<close>, \<open>n\<close> the length of the history;
  six observations give 42.
\<close>

theorem minimum_data_gate:
  assumes "historicalData \<noteq> []" and "length historicalData < 7"
  shows "generateSalesForecast historicalData range' now =
           Inr \<lparr> forecastData = [],
                 confidence = Num (real (min 50 (length historicalData * 7))) \<rparr>"
  using assms
  by (simp add: generateSalesForecast_def js_min_nat del: of_nat_mult of_nat_min)

theorem minimum_data_gate_witness:
  "sixDays \<noteq> [] \<and> length sixDays < 7
   \<and> generateSalesForecast sixDays R1month clock = Inr \<lparr> forecastData = [], confidence = Num 42 \<rparr>"
proof -
  have h: "sixDays \<noteq> []" "length sixDays < 7" and l: "length sixDays = 6"
    by (simp_all add: sixDays_def)
  from minimum_data_gate [OF h, of R1month clock] h show ?thesis
    by (simp add: l)
qed

text \<open>
  Claim C4, as stated, fails: the gate on the length of the history comes first, and a
  history of one day without sales and without orders has the confidence 7, not 0.
\<close>

theorem zero_series_short_history:
  "generateSalesForecast [day 20179 0 0] R1month clock
     = Inr \<lparr> forecastData = [], confidence = Num 7 \<rparr>
   \<and> Num 7 \<noteq> Num 0"
  by (simp add: generateSalesForecast_def)

text \<open>
  Claim C4, amended. For every history of at least seven observations in which all
  sales are zero, or all orders are zero, the forecast has no point and the confidence
  is 0.
\<close>

theorem zero_series_gate:
  assumes "7 \<le> length historicalData"
    and "(\<forall>d \<in> set historicalData. sales (metrics d) = Num 0)
       \<or> (\<forall>d \<in> set historicalData. orders (metrics d) = Num 0)"
  shows "generateSalesForecast historicalData range' now
           = Inr \<lparr> forecastData = [], confidence = Num 0 \<rparr>"
proof -
  let ?sorted =
    "js_sort (\<lambda>a b. Num (real_of_int (timestamp a - timestamp b))) historicalData"
  from assms(2)
  have "list_all (\<lambda>v. js_eq v (Num 0)) (map (\<lambda>d. js_or0 (sales (metrics d))) ?sorted)
      \<or> list_all (\<lambda>v. js_eq v (Num 0)) (map (\<lambda>d. js_or0 (orders (metrics d))) ?sorted)"
    by (auto simp add: list_all_iff set_js_sort)
  moreover from assms(1) have "historicalData \<noteq> []" and "\<not> length historicalData < 7"
    by auto
  ultimately show ?thesis
    by (simp add: generateSalesForecast_def Let_def)
qed

theorem zero_series_gate_witness:
  "7 \<le> length noSalesHistory
   \<and> generateSalesForecast noSalesHistory R1month clock
       = Inr \<lparr> forecastData = [], confidence = Num 0 \<rparr>"
proof -
  have l: "7 \<le> length noSalesHistory"
    by (simp add: noSalesHistory_def)
  have z: "(\<forall>d \<in> set noSalesHistory. sales (metrics d) = Num 0)
         \<or> (\<forall>d \<in> set noSalesHistory. orders (metrics d) = Num 0)"
    by (simp add: noSalesHistory_def day_def)
  from zero_series_gate [OF l z, of R1month clock] l show ?thesis
    by simp
qed

section \<open>The forecast of two histories\<close>

lemma halfwidth_nonneg: "\<not> 8 / 7 + (t - 3) * (t - 3) / 28 < (0::real)"
  by (simp add: not_less)

lemma intervals_declining_sales:
  "calculateConfidenceIntervals \<lparr> slope = Num (- 100), intercept = Num 700 \<rparr>
     (map Num [0, 1, 2, 3, 4, 5, 6]) (map Num [700, 600, 500, 400, 300, 200, 100]) (Num t)
   = Inr \<lparr> lower = js_max (Num 0) (Num (700 - 100 * t)), upper = Num (700 - 100 * t) \<rparr>"
  by (simp add: calculateConfidenceIntervals_def Let_def predict_def indexed_def elemAt_def
        js_sum_def js_sub_def upt_rec halfwidth_nonneg)

lemma intervals_declining_orders:
  "calculateConfidenceIntervals \<lparr> slope = Num (- 20), intercept = Num 140 \<rparr>
     (map Num [0, 1, 2, 3, 4, 5, 6]) (map Num [140, 120, 100, 80, 60, 40, 20]) (Num t)
   = Inr \<lparr> lower = js_max (Num 0) (Num (140 - 20 * t)), upper = Num (140 - 20 * t) \<rparr>"
  by (simp add: calculateConfidenceIntervals_def Let_def predict_def indexed_def elemAt_def
        js_sum_def js_sub_def upt_rec halfwidth_nonneg)

lemma intervals_zero:
  "calculateConfidenceIntervals \<lparr> slope = Num 0, intercept = Num 0 \<rparr>
     (map Num [0, 1, 2, 3, 4, 5, 6]) (map Num [0, 0, 0, 0, 0, 0, 0]) (Num t)
   = Inr \<lparr> lower = Num 0, upper = Num 0 \<rparr>"
  by (simp add: calculateConfidenceIntervals_def Let_def predict_def indexed_def elemAt_def
        js_sum_def js_sub_def upt_rec halfwidth_nonneg)

lemma days_since_start:
  "daysBetween (addDays (20189 * msPerDay) (int i)) (20179 * msPerDay) = Num (10 + real i)"
  by (simp add: daysBetween_def addDays_def msPerDay_def field_simps)

lemma today: "startOfDay clock = 20189 * msPerDay"
  by code_simp

lemma seven_days: "[0..<getDaysForRange R7d] = [0, 1, 2, 3, 4, 5, 6]"
  by code_simp

lemma declining_loop:
  "forecastLoop
     (forecastPoint (20189 * msPerDay) (20179 * msPerDay) (map Num [0, 1, 2, 3, 4, 5, 6])
        (map Num [700, 600, 500, 400, 300, 200, 100]) (map Num [140, 120, 100, 80, 60, 40, 20])
        \<lparr> slope = Num (- 100), intercept = Num 700 \<rparr> \<lparr> slope = Num (- 20), intercept = Num 140 \<rparr>
        decliningSeasonality decliningSeasonality)
     [0, 1, 2, 3, 4, 5, 6]
   = Inr decliningForecast"
  unfolding forecastLoop.simps forecastPoint_def Let_def days_since_start
    intervals_declining_sales intervals_declining_orders
  by code_simp

lemma declining_forecast:
  "map_sum id forecastData (generateSalesForecast decliningHistory R7d clock)
     = Inr decliningForecast"
proof -
  have size: "decliningHistory \<noteq> []" "\<not> length decliningHistory < 7"
    by (simp_all add: decliningHistory_def)
  have sorted: "js_sort (\<lambda>a b. Num (real_of_int (timestamp a - timestamp b))) decliningHistory
                  = decliningHistory"
    by code_simp
  have firstDate: "hd (map timestamp decliningHistory) = 20179 * msPerDay"
    by code_simp
  have x: "map (\<lambda>d. daysBetween d (20179 * msPerDay)) (map timestamp decliningHistory)
             = map Num [0, 1, 2, 3, 4, 5, 6]"
    by code_simp
  have raw: "map (\<lambda>d. js_or0 (sales (metrics d))) decliningHistory
               = map Num [700, 600, 500, 400, 300, 200, 100]"
    "map (\<lambda>d. js_or0 (orders (metrics d))) decliningHistory = map Num [140, 120, 100, 80, 60, 40, 20]"
    by code_simp+
  have gate: "list_all (\<lambda>v. js_eq v (Num 0)) (map Num [700, 600, 500, 400, 300, 200, 100]) = False"
    "list_all (\<lambda>v. js_eq v (Num 0)) (map Num [140, 120, 100, 80, 60, 40, 20]) = False"
    by code_simp+
  have y: "handleOutliers (map Num [700, 600, 500, 400, 300, 200, 100])
             = map Num [700, 600, 500, 400, 300, 200, 100]"
    "handleOutliers (map Num [140, 120, 100, 80, 60, 40, 20]) = map Num [140, 120, 100, 80, 60, 40, 20]"
    by code_simp+
  have reg: "regress (map Num [0, 1, 2, 3, 4, 5, 6]) (map Num [700, 600, 500, 400, 300, 200, 100])
               = \<lparr> slope = Num (- 100), intercept = Num 700 \<rparr>"
    "regress (map Num [0, 1, 2, 3, 4, 5, 6]) (map Num [140, 120, 100, 80, 60, 40, 20])
               = \<lparr> slope = Num (- 20), intercept = Num 140 \<rparr>"
    by code_simp+
  have seas: "calculateSeasonality (map Num [700, 600, 500, 400, 300, 200, 100])
                (map timestamp decliningHistory) = Inr decliningSeasonality"
    "calculateSeasonality (map Num [140, 120, 100, 80, 60, 40, 20])
                (map timestamp decliningHistory) = Inr decliningSeasonality"
    by code_simp+
  show ?thesis
    unfolding generateSalesForecast_def Let_def sorted firstDate x raw gate y reg
      seas today seven_days sum.case declining_loop
    using size by simp
qed

text \<open>
  Claim C5 is what the code misses. The forecast and both lower bounds are floored at
  zero, the upper bounds are not. For a history of seven days with sales falling from
  700 to 100 and orders from 140 to 20, read four days after the last observation, every
  forecast point has the sales 0 and the orders 0 with negative upper bounds; the first
  has the upper bounds -300 and -60.
\<close>

theorem forecast_upper_bound_negative:
  "map_sum id forecastData (generateSalesForecast decliningHistory R7d clock)
     = Inr decliningForecast
   \<and> sales (forecastMetrics (hd decliningForecast)) = Num 0
   \<and> salesUpper (forecastMetrics (hd decliningForecast)) = Num (- 300)
   \<and> orders (forecastMetrics (hd decliningForecast)) = Num 0
   \<and> ordersUpper (forecastMetrics (hd decliningForecast)) = Num (- 60)
   \<and> \<not> js_le (Num 0) (Num (- 300)) \<and> \<not> js_le (Num 0) (Num (- 60))"
  using declining_forecast
  by (simp add: decliningForecast_def point_def js_le_def)

section \<open>The price optimizer\<close>

text \<open>
  Claim C2 is what the code misses. For fewer than two observations
  \<^verbatim>\<open>calculatePriceElasticity\<close> returns -1, not 1: every other path returns a
  magnitude (\<^verbatim>\<open>Math.abs\<close>), and the default that the source comments as
  "Default elastic demand" is read by \<^verbatim>\<open>interpretElasticity\<close> as inelastic.
\<close>

theorem elasticity_default_is_minus_one:
  "calculatePriceElasticity [] = Num (- 1)
   \<and> calculatePriceElasticity [d] = Num (- 1)
   \<and> calculatePriceElasticity [d] \<noteq> Num 1
   \<and> interpretElasticity (calculatePriceElasticity [d])
       = ''Inelastic - Demand is not very sensitive to price changes''"
  by (simp add: calculatePriceElasticity_def interpretElasticity_def)

lemma optimizePrice_returns:
  "salesData \<noteq> [] \<Longrightarrow>
     \<exists>r. optimizePrice currentPrice cost salesData g minDiscount maxDiscount campaignPeriod = Inr r"
  by (cases salesData) (simp_all add: optimizePrice_def Let_def)

text \<open>
  Claim C9. On an empty history \<^verbatim>\<open>optimizePrice\<close> returns no result: the mean of the
  quantities reduces an empty array without an initial value, which throws a
  \<^verbatim>\<open>TypeError\<close>. (On every other history it returns, by \<open>optimizePrice_returns\<close>.)
\<close>

theorem optimizePrice_empty_history_raises:
  "optimizePrice currentPrice cost [] g minDiscount maxDiscount campaignPeriod = Inl TypeError"
  by (simp add: optimizePrice_def)

text \<open>
  Claim C10. Whenever \<^verbatim>\<open>optimizePrice\<close> returns, the expected revenue is the daily
  revenue times the days of the campaign and the expected profit is the daily profit
  times the days of the campaign, where the daily revenue and the daily profit are
  rounded values (rounding them again changes nothing).
\<close>

theorem campaign_totals_from_rounded_daily:
  assumes "optimizePrice currentPrice cost salesData g minDiscount maxDiscount campaignPeriod
             = Inr r"
  shows "expectedRevenue r = js_mul (dailyRevenue r) (Num (real_of_int (campaignDays r)))
       \<and> expectedProfit r = js_mul (dailyProfit r) (Num (real_of_int (campaignDays r)))
       \<and> js_round (dailyRevenue r) = dailyRevenue r
       \<and> js_round (dailyProfit r) = dailyProfit r"
proof (cases "js_reduce_add (map quantity salesData)")
  case (Inl e)
  with assms show ?thesis by (simp add: optimizePrice_def Let_def)
next
  case (Inr ySum)
  with assms
  have "expectedRevenue r
          = js_round (js_mul (dailyRevenue r) (Num (real_of_int (campaignDays r))))"
    and "expectedProfit r
          = js_round (js_mul (dailyProfit r) (Num (real_of_int (campaignDays r))))"
    and "\<exists>a. dailyRevenue r = js_round a" and "\<exists>a. dailyProfit r = js_round a"
    by (auto simp add: optimizePrice_def Let_def js_round_idem)
  then show ?thesis by (auto simp add: js_round_idem js_round_mul_int)
qed

theorem campaign_totals_from_rounded_daily_witness:
  "optimizePrice (Num 100) (Num 60) fallingDemand Profit (Num 0) (Num 50) (Some aprilCampaign)
     = Inr aprilResult
   \<and> campaignDays aprilResult = 10
   \<and> dailyRevenue aprilResult = Num 1365 \<and> expectedRevenue aprilResult = Num 13650
   \<and> dailyProfit aprilResult = Num 465 \<and> expectedProfit aprilResult = Num 4650"
proof -
  have e: "optimizePrice (Num 100) (Num 60) fallingDemand Profit (Num 0) (Num 50)
             (Some aprilCampaign) = Inr aprilResult"
    by code_simp
  have d: "campaignDays aprilResult = 10" "dailyRevenue aprilResult = Num 1365"
    "dailyProfit aprilResult = Num 465"
    by (simp_all add: aprilResult_def)
  from campaign_totals_from_rounded_daily [OF e] e show ?thesis
    by (simp add: d)
qed

subsection \<open>The price that the search selects\<close>










section \<open>The confidence of both engines\<close>

lemma strength_first_sale:
  "calculateSeasonalityStrength firstSaleSeasonality firstSaleSeasonality = NaN"
  by (simp add: calculateSeasonalityStrength_def calculateVariation_def firstSaleSeasonality_def
        Let_def js_sum_def js_sub_def)

lemma first_sale_confidence:
  "overallConfidence 7 (map timestamp firstSaleHistory) (map Num [0, 1, 2, 3, 4, 5, 6])
     (map Num [0, 0, 0, 0, 0, 0, 0]) (map Num [0, 0, 0, 0, 0, 0, 0])
     \<lparr> slope = Num 0, intercept = Num 0 \<rparr> \<lparr> slope = Num 0, intercept = Num 0 \<rparr>
     firstSaleSeasonality firstSaleSeasonality = NaN"
  unfolding overallConfidence_def Let_def strength_first_sale
  by code_simp

lemma first_sale_loop:
  "forecastLoop
     (forecastPoint (20189 * msPerDay) (20179 * msPerDay) (map Num [0, 1, 2, 3, 4, 5, 6])
        (map Num [0, 0, 0, 0, 0, 0, 0]) (map Num [0, 0, 0, 0, 0, 0, 0])
        \<lparr> slope = Num 0, intercept = Num 0 \<rparr> \<lparr> slope = Num 0, intercept = Num 0 \<rparr>
        firstSaleSeasonality firstSaleSeasonality)
     [0, 1, 2, 3, 4, 5, 6]
   = Inr firstSaleForecast"
  unfolding forecastLoop.simps forecastPoint_def Let_def days_since_start intervals_zero
  by code_simp

lemma first_sale_forecast:
  "generateSalesForecast firstSaleHistory R7d clock
     = Inr \<lparr> forecastData = firstSaleForecast, confidence = NaN \<rparr>"
proof -
  have size: "firstSaleHistory \<noteq> []" "\<not> length firstSaleHistory < 7"
    "length firstSaleHistory = 7"
    by (simp_all add: firstSaleHistory_def)
  have sorted: "js_sort (\<lambda>a b. Num (real_of_int (timestamp a - timestamp b))) firstSaleHistory
                  = firstSaleHistory"
    by code_simp
  have firstDate: "hd (map timestamp firstSaleHistory) = 20179 * msPerDay"
    by code_simp
  have x: "map (\<lambda>d. daysBetween d (20179 * msPerDay)) (map timestamp firstSaleHistory)
             = map Num [0, 1, 2, 3, 4, 5, 6]"
    by code_simp
  have raw: "map (\<lambda>d. js_or0 (sales (metrics d))) firstSaleHistory
               = map Num [0, 0, 0, 0, 0, 0, 100]"
    "map (\<lambda>d. js_or0 (orders (metrics d))) firstSaleHistory = map Num [0, 0, 0, 0, 0, 0, 4]"
    by code_simp+
  have gate: "list_all (\<lambda>v. js_eq v (Num 0)) (map Num [0, 0, 0, 0, 0, 0, 100]) = False"
    "list_all (\<lambda>v. js_eq v (Num 0)) (map Num [0, 0, 0, 0, 0, 0, 4]) = False"
    by code_simp+
  have y: "handleOutliers (map Num [0, 0, 0, 0, 0, 0, 100]) = map Num [0, 0, 0, 0, 0, 0, 0]"
    "handleOutliers (map Num [0, 0, 0, 0, 0, 0, 4]) = map Num [0, 0, 0, 0, 0, 0, 0]"
    by code_simp+
  have reg: "regress (map Num [0, 1, 2, 3, 4, 5, 6]) (map Num [0, 0, 0, 0, 0, 0, 0])
               = \<lparr> slope = Num 0, intercept = Num 0 \<rparr>"
    by code_simp
  have seas: "calculateSeasonality (map Num [0, 0, 0, 0, 0, 0, 0])
                (map timestamp firstSaleHistory) = Inr firstSaleSeasonality"
    by code_simp
  show ?thesis
    unfolding generateSalesForecast_def Let_def sorted firstDate x raw gate y reg
      seas today seven_days sum.case first_sale_loop size(3) first_sale_confidence
    using size(1,2) by simp
qed

text \<open>
  Claim C1 is what the code misses, in both engines. The price optimizer divides by the
  total sum of squares without the test for zero that the forecast engine makes: two
  observations with the same quantity give the confidence \<^verbatim>\<open>NaN\<close>. The forecast engine
  clamps its confidence to the range from 0 to 100 with \<^verbatim>\<open>Math.min\<close> and
  \<^verbatim>\<open>Math.max\<close>, which let \<^verbatim>\<open>NaN\<close> through: six days without sales and a first sale
  on the seventh, which the outlier filter replaces by 0, give seasonality factors
  \<^verbatim>\<open>0 / 0\<close> and the confidence \<^verbatim>\<open>NaN\<close>.
\<close>

theorem confidence_not_a_number:
  "optimizePrice (Num 100) (Num 50) flatDemand Profit (Num 0) (Num 50) None
     = Inr flatDemandResult
   \<and> OptimizationResult.confidence flatDemandResult = NaN
   \<and> map_sum id ForecastOutcome.confidence (generateSalesForecast firstSaleHistory R7d clock)
       = Inr NaN
   \<and> \<not> js_le (Num 0) NaN \<and> \<not> js_le NaN (Num 100)"
proof -
  have "optimizePrice (Num 100) (Num 50) flatDemand Profit (Num 0) (Num 50) None
          = Inr flatDemandResult"
    by code_simp
  then show ?thesis
    by (simp add: flatDemandResult_def first_sale_forecast js_le_def)
qed

end
